theory Spec2Isabelle
  imports Main
begin

section \<open>JavaScript values as the handlers see them\<close>

text \<open>
  The body parser hands every handler a parsed JSON document. A JSON value is one of
  null, a boolean, a number, a string, an array or an object; reading a property that
  an object does not have yields \<open>undefined\<close>, modelled as \<open>None\<close> of
  \<open>json option\<close>. Numbers are integers here: the handlers only test a number for
  truthiness, print it in a message, or turn it into text.
  An object is the list of its own properties; inherited properties matter only for
  the conversion to a string (\<open>toString\<close>), which is written out below.
  A request body (\<open>req.body\<close>) is taken to be a parsed JSON object. The handlers
  read named members only; a body that is an array answers like an object without
  them (its \<open>values\<close> is a method of arrays, which is not an array).
\<close>

datatype json =
    JNull
  | JBool bool
  | JNum int
  | JStr string
  | JArr "json list"
  | JObj "(string \<times> json) list"

type_synonym obj = "(string \<times> json) list"

datatype js_error =
    TypeError string
  | FetchError string
  | Error string

fun message :: "js_error \<Rightarrow> string" where
  "message (TypeError m) = m"
| "message (FetchError m) = m"
| "message (Error m) = m"

text \<open>\<open>body.name\<close> on a parsed object: the own property, else \<open>undefined\<close>.\<close>

definition get :: "obj \<Rightarrow> string \<Rightarrow> json option" where
  "get body name = map_of body name"

text \<open>JavaScript truthiness (\<open>!x\<close>, \<open>x || y\<close>, \<open>x && y\<close>, \<open>if (x)\<close>).\<close>

fun truthy :: "json \<Rightarrow> bool" where
  "truthy JNull = False"
| "truthy (JBool b) = b"
| "truthy (JNum n) = (n \<noteq> 0)"
| "truthy (JStr s) = (s \<noteq> [])"
| "truthy (JArr xs) = True"
| "truthy (JObj kvs) = True"

fun truthy_val :: "json option \<Rightarrow> bool" where
  "truthy_val None = False"
| "truthy_val (Some v) = truthy v"

text \<open>\<open>Array.isArray(x)\<close>.\<close>

fun isArray :: "json option \<Rightarrow> bool" where
  "isArray (Some (JArr xs)) = True"
| "isArray v = False"

text \<open>The elements of a value known to be an array.\<close>

fun elems :: "json option \<Rightarrow> json list" where
  "elems (Some (JArr xs)) = xs"
| "elems v = []"

text \<open>\<open>x || d\<close> with a defined default \<open>d\<close>.\<close>

definition or_else :: "json option \<Rightarrow> json \<Rightarrow> json" where
  "or_else x d = (case x of Some v \<Rightarrow> if truthy v then v else d | None \<Rightarrow> d)"

text \<open>Decimal text of a number, as a template literal \<open>`${n}`\<close> prints it.\<close>

definition digit_char :: "nat \<Rightarrow> char" where
  "digit_char d = ''0123456789'' ! d"

fun show_nat :: "nat \<Rightarrow> string" where
  "show_nat n = (if n < 10 then [digit_char n] else show_nat (n div 10) @ [digit_char (n mod 10)])"

declare show_nat.simps [simp del]

definition show_int :: "int \<Rightarrow> string" where
  "show_int i = (if i < 0 then CHR ''-'' # show_nat (nat (- i)) else show_nat (nat i))"

section \<open>Symbol cache (\<open>server.js\<close>, BitUnix relay)\<close>

text \<open>
  \<^verbatim>\<open>let tradingViewSymbols = { symbols: [], fullData: [], timestamp: null };\<close>
  The module-level variable is the state; each handler takes it and returns it.
\<close>

record snapshot =
  symbols :: "json list"
  fullData :: json
  timestamp :: json

definition tradingViewSymbols_init :: snapshot where
  "tradingViewSymbols_init = \<lparr>symbols = [], fullData = JArr [], timestamp = JNull\<rparr>"

text \<open>What a handler sends back: the HTTP status and the members of the JSON body.\<close>

record reply =
  code :: nat
  body :: obj

text \<open>
  \<open>app.post("/update-symbols")\<close>. \<open>now_iso\<close> is \<open>new Date().toISOString()\<close> at the
  time of the call. Nothing in the \<open>try\<close> block can raise on a parsed object, so the
  \<open>catch\<close> branch has no counterpart.
\<close>

definition update_symbols :: "string \<Rightarrow> obj \<Rightarrow> snapshot \<Rightarrow> reply \<times> snapshot" where
  "update_symbols now_iso req_body st =
     (let syms = get req_body ''symbols'' in
      if \<not> truthy_val syms \<or> \<not> isArray syms then
        (\<lparr>code = 400,
          body = [(''success'', JBool False), (''error'', JStr ''Invalid symbols format'')]\<rparr>, st)
      else
        (\<lparr>code = 200,
          body = [(''success'', JBool True),
                  (''message'', JStr (show_nat (length (elems syms)) @ '' symbols stored'')),
                  (''count'', JNum (int (length (elems syms))))]\<rparr>,
         \<lparr>symbols = elems syms,
          fullData = or_else (get req_body ''fullData'') (JArr []),
          timestamp = or_else (get req_body ''timestamp'') (JStr now_iso)\<rparr>))"

text \<open>\<open>app.get("/symbols/tradingview")\<close>: a pure read of the state.\<close>

definition get_symbols :: "snapshot \<Rightarrow> reply" where
  "get_symbols st =
     (if length (symbols st) = 0 then
        \<lparr>code = 200,
         body = [(''success'', JBool False),
                 (''message'', JStr ''No symbols available. Run BitUnix scraper first.''),
                 (''symbols'', JArr []),
                 (''count'', JNum 0)]\<rparr>
      else
        \<lparr>code = 200,
         body = [(''success'', JBool True),
                 (''symbols'', JArr (symbols st)),
                 (''count'', JNum (int (length (symbols st)))),
                 (''timestamp'', timestamp st)]\<rparr>)"

section \<open>Conversion to a string\<close>

text \<open>
  \<open>String(x)\<close> on a parsed JSON value. A primitive converts directly. An array
  converts through \<open>Array.prototype.join\<close>: the elements' conversions separated by
  commas, \<open>null\<close> giving the empty text. An object converts through its
  \<open>toString\<close> property: the inherited one gives \<open>[object Object]\<close>, but an own
  property of that name holds JSON data, which is not callable, and the inherited
  \<open>valueOf\<close> returns the object itself, so the conversion raises a TypeError.
\<close>

fun js_String :: "json \<Rightarrow> js_error + string"
  and js_join :: "json list \<Rightarrow> js_error + string" where
  "js_String JNull = Inr ''null''"
| "js_String (JBool b) = Inr (if b then ''true'' else ''false'')"
| "js_String (JNum n) = Inr (show_int n)"
| "js_String (JStr s) = Inr s"
| "js_String (JArr xs) = js_join xs"
| "js_String (JObj kvs) =
     (if map_of kvs ''toString'' \<noteq> None
      then Inl (TypeError ''Cannot convert object to primitive value'')
      else Inr ''[object Object]'')"
| "js_join [] = Inr []"
| "js_join (x # xs) =
     (case (if x = JNull then Inr [] else js_String x) of
        Inl err \<Rightarrow> Inl err
      | Inr s \<Rightarrow>
          (case js_join xs of
             Inl err \<Rightarrow> Inl err
           | Inr t \<Rightarrow> Inr (if xs = [] then s else s @ '','' @ t)))"

text \<open>\<open>s.trim()\<close>: white space and line terminators (the ASCII ones) off both ends.\<close>

definition is_space :: "char \<Rightarrow> bool" where
  "is_space c = (c \<in> set [CHR 0x09, CHR 0x0A, CHR 0x0B, CHR 0x0C, CHR 0x0D, CHR 0x20])"

definition trim :: "string \<Rightarrow> string" where
  "trim s = rev (dropWhile is_space (rev (dropWhile is_space s)))"

section \<open>The outbound HTTP client and the clock\<close>

datatype http_method = GET | POST

text \<open>
  The arguments of one \<open>fetch(url, options)\<close> call. \<open>payload\<close> is the value that
  \<open>JSON.stringify\<close> turns into the request body, \<open>None\<close> when no body is sent.
\<close>

record request =
  url :: string
  request_method :: http_method
  headers :: "(string \<times> string) list"
  payload :: "json option"
  timeout :: "nat option"

text \<open>
  What the handlers read of a response: \<open>r.status\<close>, \<open>r.text()\<close> (\<open>None\<close> when
  that promise rejects) and \<open>r.json()\<close> (\<open>Inl\<close> when it rejects).
  \<open>r.ok\<close> is the client's getter: a status from 200 to 299.
\<close>

record response =
  status :: nat
  text_result :: "string option"
  json_result :: "js_error + json"

definition ok :: "response \<Rightarrow> bool" where
  "ok r = (200 \<le> status r \<and> status r < 300)"

datatype fetch_result = Rejected js_error | Resolved response

text \<open>
  The process environment and the outside world: the two environment variables, what
  the \<open>n\<close>-th outbound call of the process settles to, and what the \<open>n\<close>-th reading
  of \<open>Date.now()\<close> returns.
\<close>

record env =
  GOOGLE_SCRIPT_URL :: "string option"
  PIF_APPS_SCRIPT_URL :: "string option"
  upstream :: "nat \<Rightarrow> request \<Rightarrow> fetch_result"
  clock :: "nat \<Rightarrow> int"

text \<open>
  What a handler has done so far, in the order in which it happened: an outbound call
  sent, a timer awaited to its end, a reading of the clock. The handlers are
  sequential (every effect is awaited before the next statement runs), so the log
  is a list, and the position of a timer between two calls says which came first.
\<close>

datatype event = Called request | Slept nat | ClockRead

type_synonym trace = "event list"

text \<open>The calls of a log, its timers, and the number of its clock readings.\<close>

fun calls :: "trace \<Rightarrow> request list" where
  "calls [] = []"
| "calls (Called rq # tr) = rq # calls tr"
| "calls (Slept ms # tr) = calls tr"
| "calls (ClockRead # tr) = calls tr"

fun sleeps :: "trace \<Rightarrow> nat list" where
  "sleeps [] = []"
| "sleeps (Called rq # tr) = sleeps tr"
| "sleeps (Slept ms # tr) = ms # sleeps tr"
| "sleeps (ClockRead # tr) = sleeps tr"

fun reads :: "trace \<Rightarrow> nat" where
  "reads [] = 0"
| "reads (Called rq # tr) = reads tr"
| "reads (Slept ms # tr) = reads tr"
| "reads (ClockRead # tr) = Suc (reads tr)"

definition fetch :: "env \<Rightarrow> request \<Rightarrow> trace \<Rightarrow> fetch_result \<times> trace" where
  "fetch e rq tr = (upstream e (length (calls tr)) rq, tr @ [Called rq])"

definition Date_now :: "env \<Rightarrow> trace \<Rightarrow> int \<times> trace" where
  "Date_now e tr = (clock e (reads tr), tr @ [ClockRead])"

text \<open>\<open>await new Promise(r => setTimeout(r, ms))\<close>.\<close>

definition sleep :: "nat \<Rightarrow> trace \<Rightarrow> trace" where
  "sleep ms tr = tr @ [Slept ms]"

text \<open>\<open>process.env.NAME || "literal"\<close>: an empty variable counts as unset.\<close>

definition env_or :: "string option \<Rightarrow> string \<Rightarrow> string" where
  "env_or var lit = (case var of Some v \<Rightarrow> if v \<noteq> [] then v else lit | None \<Rightarrow> lit)"

definition DEFAULT_GOOGLE_SCRIPT :: "env \<Rightarrow> string" where
  "DEFAULT_GOOGLE_SCRIPT e =
     env_or (GOOGLE_SCRIPT_URL e)
       ''https://script.google.com/macros/s/AKfycbwn6wyJbOELMCoMzBT8S-OCAgJbdS_J9qurkuOGLhY06WjVV7U_ch-qFfF_MdjuA7Dx2Q/exec''"



section \<open>Relay pipeline: \<open>app.post("/upload")\<close>\<close>

text \<open>
  The handler is the same in both versions of the sheet relay (\<open>server.js\<close> and the
  version that also serves \<open>/fetch-pif\<close>); they differ in logging only.

  \<^verbatim>\<open>const scriptUrl = (body.googleScriptUrl && String(body.googleScriptUrl).trim())
                    || DEFAULT_GOOGLE_SCRIPT;\<close>
  The conversion can raise, which the handler's outer \<open>catch\<close> receives.
\<close>

definition scriptUrl :: "env \<Rightarrow> obj \<Rightarrow> js_error + string" where
  "scriptUrl e req_body =
     (case get req_body ''googleScriptUrl'' of
        None \<Rightarrow> Inr (DEFAULT_GOOGLE_SCRIPT e)
      | Some v \<Rightarrow>
          if truthy v then
            (case js_String v of
               Inl err \<Rightarrow> Inl err
             | Inr s \<Rightarrow> Inr (if trim s \<noteq> [] then trim s else DEFAULT_GOOGLE_SCRIPT e))
          else Inr (DEFAULT_GOOGLE_SCRIPT e))"

text \<open>
  \<^verbatim>\<open>const forward = { sheetName: body.sheetName || "Sheet1", values: body.values };\<close>
  A member whose value is \<open>undefined\<close> is left out by \<open>JSON.stringify\<close>.
\<close>

definition forward :: "obj \<Rightarrow> json" where
  "forward req_body =
     JObj ((''sheetName'', or_else (get req_body ''sheetName'') (JStr ''Sheet1'')) #
           (case get req_body ''values'' of Some v \<Rightarrow> [(''values'', v)] | None \<Rightarrow> []))"

definition post_request :: "string \<Rightarrow> json \<Rightarrow> request" where
  "post_request target fwd =
     \<lparr>url = target, request_method = POST,
      headers = [(''Content-Type'', ''application/json'')],
      payload = Some fwd, timeout = Some 15000\<rparr>"

text \<open>\<open>await r.text().catch(() => "")\<close>.\<close>

definition text_or_empty :: "response \<Rightarrow> string" where
  "text_or_empty r = (case text_result r of Some t \<Rightarrow> t | None \<Rightarrow> [])"

text \<open>A word between apostrophes, as the messages print names.\<close>

definition quoted :: "string \<Rightarrow> string" where
  "quoted name = CHR 0x27 # name @ [CHR 0x27]"

definition elapsed_ms :: "int \<Rightarrow> string" where
  "elapsed_ms elapsed = show_int elapsed @ ''ms''"

text \<open>
  The loop \<open>while (tryCount < 2) { tryCount++; try { ... } catch (fetchErr) { ... } }\<close>
  together with the code after it, as a function of the loop variables
  \<open>tryCount\<close> and \<open>lastErr\<close>. Only \<open>fetch\<close> can raise inside the inner \<open>try\<close>.
\<close>

function relay_loop :: "env \<Rightarrow> request \<Rightarrow> int \<Rightarrow> nat \<Rightarrow> json \<Rightarrow> trace \<Rightarrow> reply \<times> trace" where
  "relay_loop e rq startTime tryCount lastErr tr =
     (if tryCount < 2 then
        (case fetch e rq tr of
           (Resolved r, tr1) \<Rightarrow>
             if ok r \<or> status r = 302 then
               (case Date_now e tr1 of
                  (t, tr2) \<Rightarrow>
                    (\<lparr>code = 200,
                      body = [(''ok'', JBool True),
                              (''forwarded'', JBool True),
                              (''status'', JNum (int (status r))),
                              (''text'', JStr (text_or_empty r)),
                              (''elapsed'', JStr (elapsed_ms (t - startTime)))]\<rparr>, tr2))
             else if status r \<ge> 500 \<and> tryCount + 1 < 2 then
               relay_loop e rq startTime (tryCount + 1)
                 (JStr (''Non-OK response '' @ show_nat (status r))) (sleep 500 tr1)
             else
               (\<lparr>code = 502,
                 body = [(''ok'', JBool False),
                         (''error'', JStr (''Forward failed '' @ show_nat (status r))),
                         (''status'', JNum (int (status r))),
                         (''gasResponse'', JStr (text_or_empty r))]\<rparr>, tr1)
         | (Rejected fetchErr, tr1) \<Rightarrow>
             if tryCount + 1 < 2 then
               relay_loop e rq startTime (tryCount + 1) (JStr (message fetchErr)) (sleep 500 tr1)
             else
               relay_loop e rq startTime (tryCount + 1) (JStr (message fetchErr)) tr1)
      else
        (case Date_now e tr of
           (t, tr1) \<Rightarrow>
             (\<lparr>code = 502,
               body = [(''ok'', JBool False),
                       (''error'', JStr ''Forward failed after retry''),
                       (''details'', lastErr),
                       (''elapsed'', JStr (elapsed_ms (t - startTime)))]\<rparr>, tr1)))"
  by pat_completeness auto
termination
  by (relation "measure (\<lambda>(e, rq, startTime, tryCount, lastErr, tr). 2 - tryCount)") auto

declare relay_loop.simps [simp del]

text \<open>The outer \<open>catch (err)\<close> of the handler.\<close>

definition internal_error :: "env \<Rightarrow> int \<Rightarrow> js_error \<Rightarrow> trace \<Rightarrow> reply \<times> trace" where
  "internal_error e startTime err tr =
     (case Date_now e tr of
        (t, tr1) \<Rightarrow>
          (\<lparr>code = 500,
            body = [(''ok'', JBool False),
                    (''error'', JStr ''Internal server error''),
                    (''details'', JStr (message err)),
                    (''elapsed'', JStr (elapsed_ms (t - startTime)))]\<rparr>, tr1))"

definition upload :: "env \<Rightarrow> obj \<Rightarrow> trace \<Rightarrow> reply \<times> trace" where
  "upload e req_body tr =
     (case Date_now e tr of
        (startTime, tr1) \<Rightarrow>
          (case scriptUrl e req_body of
             Inl err \<Rightarrow> internal_error e startTime err tr1
           | Inr target \<Rightarrow>
               if target = [] then
                 (\<lparr>code = 400,
                   body = [(''ok'', JBool False),
                           (''error'', JStr ''No script URL configured.'')]\<rparr>, tr1)
               else if \<not> truthy_val (get req_body ''values'') \<or> \<not> isArray (get req_body ''values'') then
                 (\<lparr>code = 400,
                   body = [(''ok'', JBool False),
                           (''error'', JStr (''Missing or invalid '' @ quoted ''values'' @ '' array in payload.''))]\<rparr>, tr1)
               else
                 relay_loop e (post_request target (forward req_body)) startTime 0 JNull tr1))"

section \<open>Read-through fetch: \<open>app.get("/fetch-pif")\<close>\<close>






section \<open>Example worlds\<close>

text \<open>
  Concrete inputs for running the handlers: a world whose upstream answers the
  outbound calls of the process from a script, one after the other (and fails at the
  network level once the script is used up), with the clock advancing 700 ms between
  two readings; a handler that has done nothing yet; and a plain-text response.
\<close>

definition scripted :: "fetch_result list \<Rightarrow> env" where
  "scripted rs =
     \<lparr>GOOGLE_SCRIPT_URL = Some ''https://sheet.example/exec'',
      PIF_APPS_SCRIPT_URL = Some ''https://pif.example/exec'',
      upstream = (\<lambda>n rq. if n < length rs then rs ! n else Rejected (FetchError ''network timeout'')),
      clock = (\<lambda>n. 1000 + 700 * int n)\<rparr>"

definition fresh :: trace where
  "fresh = []"

definition plain :: "nat \<Rightarrow> string \<Rightarrow> response" where
  "plain st txt =
     \<lparr>status = st, text_result = Some txt,
      json_result = Inl (Error ''Unexpected token in JSON'')\<rparr>"


section \<open>Printing numbers\<close>

lemma show_nat_digit: "n < 10 \<Longrightarrow> show_nat n = [digit_char n]"
  by (subst show_nat.simps) simp

lemma show_nat_more:
  "\<not> n < 10 \<Longrightarrow> show_nat n = show_nat (n div 10) @ [digit_char (n mod 10)]"
  by (subst show_nat.simps) simp

lemmas show_number = show_int_def show_nat_digit show_nat_more digit_char_def

section \<open>Symbol cache: properties\<close>

lemma reject_iff_not_array: "(\<not> truthy_val v \<or> \<not> isArray v) = (\<not> isArray v)"
  by (cases v rule: isArray.cases) simp_all

lemma array_truthy: "isArray v \<Longrightarrow> truthy_val v"
  by (cases v rule: isArray.cases) simp_all

lemma update_symbols_rejected:
  "\<not> isArray (get req_body ''symbols'') \<Longrightarrow>
   update_symbols now_iso req_body st =
     (\<lparr>code = 400,
       body = [(''success'', JBool False), (''error'', JStr ''Invalid symbols format'')]\<rparr>, st)"
  by (simp add: update_symbols_def Let_def)

lemma update_symbols_accepted:
  "isArray (get req_body ''symbols'') \<Longrightarrow>
   update_symbols now_iso req_body st =
     (\<lparr>code = 200,
       body = [(''success'', JBool True),
               (''message'', JStr (show_nat (length (elems (get req_body ''symbols''))) @ '' symbols stored'')),
               (''count'', JNum (int (length (elems (get req_body ''symbols'')))))]\<rparr>,
      \<lparr>symbols = elems (get req_body ''symbols''),
       fullData = or_else (get req_body ''fullData'') (JArr []),
       timestamp = or_else (get req_body ''timestamp'') (JStr now_iso)\<rparr>)"
  by (simp add: update_symbols_def Let_def array_truthy)

lemma get_symbols_init:
  "get_symbols tradingViewSymbols_init =
     \<lparr>code = 200,
      body = [(''success'', JBool False),
              (''message'', JStr ''No symbols available. Run BitUnix scraper first.''),
              (''symbols'', JArr []),
              (''count'', JNum 0)]\<rparr>"
  by (simp add: get_symbols_def tradingViewSymbols_init_def)

text \<open>
  C8. A write whose \<open>symbols\<close> is missing or is not an array is answered 400 with
  \<open>success: false\<close> and leaves the stored snapshot as it was. Any other write is
  answered 200 with \<open>success: true\<close> and \<open>count\<close> the number of symbols, and the
  new snapshot is built from the request alone: it holds exactly the symbols sent,
  the \<open>fullData\<close> and the \<open>timestamp\<close> sent, and in place of a \<open>fullData\<close> or a
  \<open>timestamp\<close> that the request omits (or sends as a falsy value) the empty array
  and the current time. Nothing of the previous snapshot survives: two different
  previous snapshots lead to the same new one.
\<close>

theorem update_symbols_contract:
  "(\<not> isArray (get req_body ''symbols'') \<longrightarrow>
      update_symbols now_iso req_body st =
        (\<lparr>code = 400,
          body = [(''success'', JBool False), (''error'', JStr ''Invalid symbols format'')]\<rparr>, st))
   \<and> (isArray (get req_body ''symbols'') \<longrightarrow>
      fst (update_symbols now_iso req_body st) =
        \<lparr>code = 200,
         body = [(''success'', JBool True),
                 (''message'', JStr (show_nat (length (elems (get req_body ''symbols''))) @ '' symbols stored'')),
                 (''count'', JNum (int (length (elems (get req_body ''symbols'')))))]\<rparr>
      \<and> get req_body ''symbols'' = Some (JArr (symbols (snd (update_symbols now_iso req_body st))))
      \<and> snd (update_symbols now_iso req_body st) =
          \<lparr>symbols = elems (get req_body ''symbols''),
           fullData = (case get req_body ''fullData'' of
                         None \<Rightarrow> JArr []
                       | Some sent \<Rightarrow> if truthy sent then sent else JArr []),
           timestamp = (case get req_body ''timestamp'' of
                          None \<Rightarrow> JStr now_iso
                        | Some sent \<Rightarrow> if truthy sent then sent else JStr now_iso)\<rparr>
      \<and> (\<forall>sent. get req_body ''fullData'' = Some sent \<and> truthy sent \<longrightarrow>
            fullData (snd (update_symbols now_iso req_body st)) = sent)
      \<and> (\<forall>sent. get req_body ''timestamp'' = Some sent \<and> truthy sent \<longrightarrow>
            timestamp (snd (update_symbols now_iso req_body st)) = sent)
      \<and> (get req_body ''fullData'' = None \<longrightarrow>
            fullData (snd (update_symbols now_iso req_body st)) = JArr [])
      \<and> (get req_body ''timestamp'' = None \<longrightarrow>
            timestamp (snd (update_symbols now_iso req_body st)) = JStr now_iso)
      \<and> snd (update_symbols now_iso req_body st) = snd (update_symbols now_iso req_body st'))"
proof (cases "isArray (get req_body ''symbols'')")
  case False
  then show ?thesis
    by (simp add: update_symbols_rejected)
next
  case True
  then obtain xs where xs: "get req_body ''symbols'' = Some (JArr xs)"
    by (cases "get req_body ''symbols''" rule: isArray.cases) simp_all
  from True show ?thesis
    by (simp add: update_symbols_accepted xs or_else_def)
qed

theorem update_symbols_contract_witness:
  "update_symbols ''2026-01-01T00:00:00.000Z'' [(''symbols'', JStr ''BTCUSD'')]
       \<lparr>symbols = [JStr ''XRPUSD''], fullData = JArr [JNum 1], timestamp = JNum 7\<rparr> =
     (\<lparr>code = 400,
       body = [(''success'', JBool False), (''error'', JStr ''Invalid symbols format'')]\<rparr>,
      \<lparr>symbols = [JStr ''XRPUSD''], fullData = JArr [JNum 1], timestamp = JNum 7\<rparr>)
   \<and> update_symbols ''2026-01-01T00:00:00.000Z''
          [(''symbols'', JArr [JStr ''BTCUSD'', JStr ''ETHUSD'']),
           (''fullData'', JArr [JObj [(''symbol'', JStr ''BTCUSD''), (''price'', JNum 97000)]]),
           (''timestamp'', JStr ''2025-12-31T23:59:59.000Z'')]
          \<lparr>symbols = [JStr ''XRPUSD''], fullData = JArr [JNum 1], timestamp = JNum 7\<rparr> =
       (\<lparr>code = 200,
         body = [(''success'', JBool True), (''message'', JStr ''2 symbols stored''),
                 (''count'', JNum 2)]\<rparr>,
        \<lparr>symbols = [JStr ''BTCUSD'', JStr ''ETHUSD''],
         fullData = JArr [JObj [(''symbol'', JStr ''BTCUSD''), (''price'', JNum 97000)]],
         timestamp = JStr ''2025-12-31T23:59:59.000Z''\<rparr>)
   \<and> snd (update_symbols ''2026-01-01T00:00:00.000Z''
          [(''symbols'', JArr [JStr ''BTCUSD'', JStr ''ETHUSD''])]
          \<lparr>symbols = [JStr ''XRPUSD''], fullData = JArr [JNum 1], timestamp = JNum 7\<rparr>) =
       \<lparr>symbols = [JStr ''BTCUSD'', JStr ''ETHUSD''], fullData = JArr [],
        timestamp = JStr ''2026-01-01T00:00:00.000Z''\<rparr>"
proof -
  let ?old = "\<lparr>symbols = [JStr ''XRPUSD''], fullData = JArr [JNum 1], timestamp = JNum 7\<rparr>"
  let ?now = "''2026-01-01T00:00:00.000Z''"
  let ?bad = "[(''symbols'', JStr ''BTCUSD'')]"
  let ?full = "[(''symbols'', JArr [JStr ''BTCUSD'', JStr ''ETHUSD'']),
           (''fullData'', JArr [JObj [(''symbol'', JStr ''BTCUSD''), (''price'', JNum 97000)]]),
           (''timestamp'', JStr ''2025-12-31T23:59:59.000Z'')]"
  let ?bare = "[(''symbols'', JArr [JStr ''BTCUSD'', JStr ''ETHUSD''])]"
  have bad: "\<not> isArray (get ?bad ''symbols'')"
    by (simp add: get_def)
  have full: "isArray (get ?full ''symbols'')"
    by (simp add: get_def)
  have bare: "isArray (get ?bare ''symbols'')"
    by (simp add: get_def)
  from bad update_symbols_contract [of ?bad ?now ?old ?old]
  have first: "update_symbols ?now ?bad ?old =
     (\<lparr>code = 400,
       body = [(''success'', JBool False), (''error'', JStr ''Invalid symbols format'')]\<rparr>, ?old)"
    by blast
  from full update_symbols_contract [of ?full ?now ?old ?old]
  have reply: "fst (update_symbols ?now ?full ?old) =
       \<lparr>code = 200,
        body = [(''success'', JBool True),
                (''message'', JStr (show_nat (length (elems (get ?full ''symbols''))) @ '' symbols stored'')),
                (''count'', JNum (int (length (elems (get ?full ''symbols'')))))]\<rparr>"
    and stored: "snd (update_symbols ?now ?full ?old) =
          \<lparr>symbols = elems (get ?full ''symbols''),
           fullData = (case get ?full ''fullData'' of
                         None \<Rightarrow> JArr []
                       | Some sent \<Rightarrow> if truthy sent then sent else JArr []),
           timestamp = (case get ?full ''timestamp'' of
                          None \<Rightarrow> JStr ?now
                        | Some sent \<Rightarrow> if truthy sent then sent else JStr ?now)\<rparr>"
    by blast+
  from reply stored have second: "update_symbols ?now ?full ?old =
       (\<lparr>code = 200,
         body = [(''success'', JBool True), (''message'', JStr ''2 symbols stored''),
                 (''count'', JNum 2)]\<rparr>,
        \<lparr>symbols = [JStr ''BTCUSD'', JStr ''ETHUSD''],
         fullData = JArr [JObj [(''symbol'', JStr ''BTCUSD''), (''price'', JNum 97000)]],
         timestamp = JStr ''2025-12-31T23:59:59.000Z''\<rparr>)"
    by (cases "update_symbols ?now ?full ?old") (simp add: get_def show_number)
  from bare update_symbols_contract [of ?bare ?now ?old ?old]
  have "snd (update_symbols ?now ?bare ?old) =
          \<lparr>symbols = elems (get ?bare ''symbols''),
           fullData = (case get ?bare ''fullData'' of
                         None \<Rightarrow> JArr []
                       | Some sent \<Rightarrow> if truthy sent then sent else JArr []),
           timestamp = (case get ?bare ''timestamp'' of
                          None \<Rightarrow> JStr ?now
                        | Some sent \<Rightarrow> if truthy sent then sent else JStr ?now)\<rparr>"
    by blast
  then have third: "snd (update_symbols ?now ?bare ?old) =
       \<lparr>symbols = [JStr ''BTCUSD'', JStr ''ETHUSD''], fullData = JArr [], timestamp = JStr ?now\<rparr>"
    by (simp add: get_def)
  from first second third show ?thesis
    by simp
qed

text \<open>
  C9. After a write that was accepted with the array \<open>s\<close>, a read returns, with status
  200, \<open>success: true\<close>, the same array \<open>s\<close>, its length as \<open>count\<close> and the stored
  timestamp when \<open>s\<close> is not empty, and the "no symbols" answer (\<open>success: false\<close>,
  an empty array, count 0 and a message, still with status 200) when \<open>s\<close> is empty.
  A read of the initial state gives that same "no symbols" answer.
\<close>

theorem read_after_write:
  "(isArray (get req_body ''symbols'') \<longrightarrow>
      get_symbols (snd (update_symbols now_iso req_body st)) =
        (if elems (get req_body ''symbols'') = [] then
           \<lparr>code = 200,
            body = [(''success'', JBool False),
                    (''message'', JStr ''No symbols available. Run BitUnix scraper first.''),
                    (''symbols'', JArr []),
                    (''count'', JNum 0)]\<rparr>
         else
           \<lparr>code = 200,
            body = [(''success'', JBool True),
                    (''symbols'', JArr (elems (get req_body ''symbols''))),
                    (''count'', JNum (int (length (elems (get req_body ''symbols''))))),
                    (''timestamp'', timestamp (snd (update_symbols now_iso req_body st)))]\<rparr>))
   \<and> get_symbols tradingViewSymbols_init =
        \<lparr>code = 200,
         body = [(''success'', JBool False),
                 (''message'', JStr ''No symbols available. Run BitUnix scraper first.''),
                 (''symbols'', JArr []),
                 (''count'', JNum 0)]\<rparr>"
proof (intro conjI impI)
  assume "isArray (get req_body ''symbols'')"
  then show "get_symbols (snd (update_symbols now_iso req_body st)) =
        (if elems (get req_body ''symbols'') = [] then
           \<lparr>code = 200,
            body = [(''success'', JBool False),
                    (''message'', JStr ''No symbols available. Run BitUnix scraper first.''),
                    (''symbols'', JArr []),
                    (''count'', JNum 0)]\<rparr>
         else
           \<lparr>code = 200,
            body = [(''success'', JBool True),
                    (''symbols'', JArr (elems (get req_body ''symbols''))),
                    (''count'', JNum (int (length (elems (get req_body ''symbols''))))),
                    (''timestamp'', timestamp (snd (update_symbols now_iso req_body st)))]\<rparr>)"
    by (simp add: update_symbols_accepted get_symbols_def)
next
  show "get_symbols tradingViewSymbols_init =
        \<lparr>code = 200,
         body = [(''success'', JBool False),
                 (''message'', JStr ''No symbols available. Run BitUnix scraper first.''),
                 (''symbols'', JArr []),
                 (''count'', JNum 0)]\<rparr>"
    by (rule get_symbols_init)
qed

theorem read_after_write_witness:
  "get_symbols (snd (update_symbols ''2026-01-01T00:00:00.000Z''
       [(''symbols'', JArr [JStr ''BTCUSD'', JStr ''ETHUSD''])] tradingViewSymbols_init)) =
     \<lparr>code = 200,
      body = [(''success'', JBool True),
              (''symbols'', JArr [JStr ''BTCUSD'', JStr ''ETHUSD'']),
              (''count'', JNum 2),
              (''timestamp'', JStr ''2026-01-01T00:00:00.000Z'')]\<rparr>"
proof -
  let ?now = "''2026-01-01T00:00:00.000Z''"
  let ?good = "[(''symbols'', JArr [JStr ''BTCUSD'', JStr ''ETHUSD''])]"
  have accepted: "isArray (get ?good ''symbols'')"
    by (simp add: get_def)
  have stamp: "timestamp (snd (update_symbols ?now ?good tradingViewSymbols_init)) = JStr ?now"
    by (simp add: update_symbols_accepted accepted or_else_def get_def)
  from accepted read_after_write [of ?good ?now tradingViewSymbols_init]
  have "get_symbols (snd (update_symbols ?now ?good tradingViewSymbols_init)) =
        (if elems (get ?good ''symbols'') = [] then
           \<lparr>code = 200,
            body = [(''success'', JBool False),
                    (''message'', JStr ''No symbols available. Run BitUnix scraper first.''),
                    (''symbols'', JArr []),
                    (''count'', JNum 0)]\<rparr>
         else
           \<lparr>code = 200,
            body = [(''success'', JBool True),
                    (''symbols'', JArr (elems (get ?good ''symbols''))),
                    (''count'', JNum (int (length (elems (get ?good ''symbols''))))),
                    (''timestamp'', timestamp (snd (update_symbols ?now ?good tradingViewSymbols_init)))]\<rparr>)"
    by blast
  then show ?thesis
    by (simp add: stamp get_def)
qed

text \<open>
  C10. A write with \<open>symbols: []\<close> is not rejected: it is answered 200 with
  \<open>success: true\<close> and \<open>count: 0\<close>, and the stored snapshot then holds no symbols.
  A read after it gives the "no symbols" answer, which is the answer a read of the
  initial state gives: through the read interface the two states look the same.
\<close>

theorem empty_write_reads_as_initial:
  "get req_body ''symbols'' = Some (JArr []) \<Longrightarrow>
     fst (update_symbols now_iso req_body st) =
       \<lparr>code = 200,
        body = [(''success'', JBool True), (''message'', JStr ''0 symbols stored''),
                (''count'', JNum 0)]\<rparr>
     \<and> symbols (snd (update_symbols now_iso req_body st)) = []
     \<and> get_symbols (snd (update_symbols now_iso req_body st)) =
         \<lparr>code = 200,
          body = [(''success'', JBool False),
                  (''message'', JStr ''No symbols available. Run BitUnix scraper first.''),
                  (''symbols'', JArr []),
                  (''count'', JNum 0)]\<rparr>
     \<and> get_symbols (snd (update_symbols now_iso req_body st)) =
         get_symbols tradingViewSymbols_init"
  by (simp add: update_symbols_accepted get_symbols_def tradingViewSymbols_init_def show_number)

theorem empty_write_reads_as_initial_witness:
  "fst (update_symbols ''2026-01-01T00:00:00.000Z'' [(''symbols'', JArr [])]
          \<lparr>symbols = [JStr ''XRPUSD''], fullData = JArr [], timestamp = JNum 7\<rparr>) =
       \<lparr>code = 200,
        body = [(''success'', JBool True), (''message'', JStr ''0 symbols stored''),
                (''count'', JNum 0)]\<rparr>
   \<and> get_symbols (snd (update_symbols ''2026-01-01T00:00:00.000Z'' [(''symbols'', JArr [])]
          \<lparr>symbols = [JStr ''XRPUSD''], fullData = JArr [], timestamp = JNum 7\<rparr>)) =
       get_symbols tradingViewSymbols_init"
proof -
  have "get [(''symbols'', JArr [])] ''symbols'' = Some (JArr [])"
    by (simp add: get_def)
  from empty_write_reads_as_initial [OF this] show ?thesis
    by blast
qed

section \<open>Reading the log\<close>

lemma calls_append [simp]: "calls (tr @ tr') = calls tr @ calls tr'"
  by (induction tr rule: calls.induct) simp_all

lemma sleeps_append [simp]: "sleeps (tr @ tr') = sleeps tr @ sleeps tr'"
  by (induction tr rule: sleeps.induct) simp_all

lemma reads_append [simp]: "reads (tr @ tr') = reads tr + reads tr'"
  by (induction tr rule: reads.induct) simp_all

text \<open>
  What the two shortest logs of a forwarding handler amount to: one call and no timer,
  and two calls with one timer.
\<close>

lemma log_of_one_call:
  "calls (tr @ [ClockRead, Called rq]) = calls tr @ [rq]
   \<and> sleeps (tr @ [ClockRead, Called rq]) = sleeps tr
   \<and> reads (tr @ [ClockRead, Called rq]) = Suc (reads tr)"
  by simp

lemma log_of_one_retry:
  "calls (tr @ [ClockRead, Called rq, Slept 500, Called rq, ClockRead]) = calls tr @ [rq, rq]
   \<and> sleeps (tr @ [ClockRead, Called rq, Slept 500, Called rq, ClockRead]) = sleeps tr @ [500]
   \<and> reads (tr @ [ClockRead, Called rq, Slept 500, Called rq, ClockRead]) = Suc (Suc (reads tr))"
  by simp

section \<open>Relay pipeline: the steps of the loop\<close>

lemma env_or_nonempty: "lit \<noteq> [] \<Longrightarrow> env_or var lit \<noteq> []"
  by (simp add: env_or_def split: option.split)

lemma DEFAULT_GOOGLE_SCRIPT_nonempty: "DEFAULT_GOOGLE_SCRIPT e \<noteq> []"
  unfolding DEFAULT_GOOGLE_SCRIPT_def by (rule env_or_nonempty) simp

lemma scriptUrl_nonempty: "scriptUrl e req_body = Inr target \<Longrightarrow> target \<noteq> []"
  by (auto simp: scriptUrl_def DEFAULT_GOOGLE_SCRIPT_nonempty
      split: option.splits if_splits sum.splits)

text \<open>The check \<open>if (!scriptUrl)\<close> never fires: the handler has three ways out.\<close>

lemma upload_raised:
  "scriptUrl e req_body = Inl err \<Longrightarrow>
   upload e req_body tr =
     (\<lparr>code = 500,
       body = [(''ok'', JBool False),
               (''error'', JStr ''Internal server error''),
               (''details'', JStr (message err)),
               (''elapsed'', JStr (elapsed_ms (clock e (Suc (reads tr)) - clock e (reads tr))))]\<rparr>,
      tr @ [ClockRead, ClockRead])"
  by (simp add: upload_def Date_now_def internal_error_def)

lemma upload_invalid:
  "scriptUrl e req_body = Inr target \<Longrightarrow> \<not> isArray (get req_body ''values'') \<Longrightarrow>
   upload e req_body tr =
     (\<lparr>code = 400,
       body = [(''ok'', JBool False),
               (''error'', JStr (''Missing or invalid '' @ quoted ''values'' @ '' array in payload.''))]\<rparr>,
      tr @ [ClockRead])"
  by (simp add: upload_def Date_now_def scriptUrl_nonempty)

lemma upload_valid:
  "scriptUrl e req_body = Inr target \<Longrightarrow> isArray (get req_body ''values'') \<Longrightarrow>
   upload e req_body tr =
     relay_loop e (post_request target (forward req_body)) (clock e (reads tr)) 0 JNull
       (tr @ [ClockRead])"
  by (simp add: upload_def Date_now_def scriptUrl_nonempty array_truthy)

text \<open>One turn of the loop, read off the function's equation.\<close>

lemma relay_loop_exhausted:
  "\<not> n < 2 \<Longrightarrow>
   relay_loop e rq startTime n lastErr tr =
     (\<lparr>code = 502,
       body = [(''ok'', JBool False),
               (''error'', JStr ''Forward failed after retry''),
               (''details'', lastErr),
               (''elapsed'', JStr (elapsed_ms (clock e (reads tr) - startTime)))]\<rparr>,
      tr @ [ClockRead])"
  using relay_loop.simps [of e rq startTime n lastErr tr]
  by (simp add: Date_now_def)

lemma relay_loop_success:
  "n < 2 \<Longrightarrow> upstream e (length (calls tr)) rq = Resolved r \<Longrightarrow> ok r \<or> status r = 302 \<Longrightarrow>
   relay_loop e rq startTime n lastErr tr =
     (\<lparr>code = 200,
       body = [(''ok'', JBool True),
               (''forwarded'', JBool True),
               (''status'', JNum (int (status r))),
               (''text'', JStr (text_or_empty r)),
               (''elapsed'', JStr (elapsed_ms (clock e (reads tr) - startTime)))]\<rparr>,
      tr @ [Called rq, ClockRead])"
  using relay_loop.simps [of e rq startTime n lastErr tr]
  by (simp add: fetch_def Date_now_def)

lemma relay_loop_stop:
  "n < 2 \<Longrightarrow> upstream e (length (calls tr)) rq = Resolved r \<Longrightarrow>
   \<not> ok r \<Longrightarrow> status r \<noteq> 302 \<Longrightarrow> status r < 500 \<or> n = Suc 0 \<Longrightarrow>
   relay_loop e rq startTime n lastErr tr =
     (\<lparr>code = 502,
       body = [(''ok'', JBool False),
               (''error'', JStr (''Forward failed '' @ show_nat (status r))),
               (''status'', JNum (int (status r))),
               (''gasResponse'', JStr (text_or_empty r))]\<rparr>,
      tr @ [Called rq])"
proof -
  assume turn: "n < 2" and resolved: "upstream e (length (calls tr)) rq = Resolved r"
    and failure: "\<not> ok r" "status r \<noteq> 302" and final: "status r < 500 \<or> n = Suc 0"
  have sent: "fetch e rq tr = (Resolved r, tr @ [Called rq])"
    by (simp add: fetch_def resolved)
  from final show ?thesis
    by (subst relay_loop.simps) (auto simp: turn sent failure)
qed

lemma server_error_not_success: "500 \<le> status r \<Longrightarrow> \<not> ok r \<and> status r \<noteq> 302"
  by (simp add: ok_def)

lemma relay_loop_retry_status:
  "upstream e (length (calls tr)) rq = Resolved r \<Longrightarrow> 500 \<le> status r \<Longrightarrow>
   relay_loop e rq startTime 0 lastErr tr =
     relay_loop e rq startTime (Suc 0) (JStr (''Non-OK response '' @ show_nat (status r)))
       (tr @ [Called rq, Slept 500])"
  using relay_loop.simps [of e rq startTime 0 lastErr tr]
  by (simp add: fetch_def sleep_def server_error_not_success)

lemma relay_loop_retry_rejected:
  "upstream e (length (calls tr)) rq = Rejected err \<Longrightarrow>
   relay_loop e rq startTime 0 lastErr tr =
     relay_loop e rq startTime (Suc 0) (JStr (message err)) (tr @ [Called rq, Slept 500])"
  using relay_loop.simps [of e rq startTime 0 lastErr tr]
  by (simp add: fetch_def sleep_def)

lemma relay_loop_rejected_last:
  "upstream e (length (calls tr)) rq = Rejected err \<Longrightarrow>
   relay_loop e rq startTime (Suc 0) lastErr tr =
     (\<lparr>code = 502,
       body = [(''ok'', JBool False),
               (''error'', JStr ''Forward failed after retry''),
               (''details'', JStr (message err)),
               (''elapsed'', JStr (elapsed_ms (clock e (reads tr) - startTime)))]\<rparr>,
      tr @ [Called rq, ClockRead])"
proof -
  assume rejected: "upstream e (length (calls tr)) rq = Rejected err"
  have sent: "fetch e rq tr = (Rejected err, tr @ [Called rq])"
    by (simp add: fetch_def rejected)
  have "relay_loop e rq startTime (Suc 0) lastErr tr =
        relay_loop e rq startTime (Suc (Suc 0)) (JStr (message err)) (tr @ [Called rq])"
    by (subst relay_loop.simps) (simp add: sent numeral_2_eq_2)
  then show ?thesis
    by (simp add: relay_loop_exhausted)
qed

section \<open>Relay pipeline: validation\<close>

text \<open>
  An override that is absent, \<open>null\<close>, a boolean, a number or a string always
  yields a destination; only an array or an object can make the conversion raise.
\<close>

lemma scriptUrl_primitive:
  "(\<forall>xs. get req_body ''googleScriptUrl'' \<noteq> Some (JArr xs)) \<Longrightarrow>
   (\<forall>kvs. get req_body ''googleScriptUrl'' \<noteq> Some (JObj kvs)) \<Longrightarrow>
   \<exists>target. scriptUrl e req_body = Inr target"
proof (cases "get req_body ''googleScriptUrl''")
  case None
  then show ?thesis by (simp add: scriptUrl_def)
next
  case (Some v)
  assume "\<forall>xs. get req_body ''googleScriptUrl'' \<noteq> Some (JArr xs)"
    and "\<forall>kvs. get req_body ''googleScriptUrl'' \<noteq> Some (JObj kvs)"
  with Some show ?thesis
    by (cases v) (simp_all add: scriptUrl_def)
qed

text \<open>
  C1, as stated, fails: a request without \<open>values\<close> whose override is an object
  with an own \<open>toString\<close> member is answered 500, not 400, because the destination is
  resolved (and the conversion raises) before \<open>values\<close> is looked at.
\<close>

theorem upload_invalid_values_counterexample:
  "get [(''googleScriptUrl'', JObj [(''toString'', JNum 1)])] ''values'' = None
   \<and> upload (scripted []) [(''googleScriptUrl'', JObj [(''toString'', JNum 1)])] fresh =
       (\<lparr>code = 500,
         body = [(''ok'', JBool False),
                 (''error'', JStr ''Internal server error''),
                 (''details'', JStr ''Cannot convert object to primitive value''),
                 (''elapsed'', JStr ''700ms'')]\<rparr>,
        [ClockRead, ClockRead])"
proof -
  have "scriptUrl (scripted []) [(''googleScriptUrl'', JObj [(''toString'', JNum 1)])] =
        Inl (TypeError ''Cannot convert object to primitive value'')"
    by (simp add: scriptUrl_def get_def)
  then show ?thesis
    by (simp add: upload_raised get_def fresh_def scripted_def elapsed_ms_def show_number
        numeral_2_eq_2)
qed

text \<open>
  C1, amended. For every upload request whose \<open>values\<close> is missing or is not an
  array, no outbound call is made, no timer is awaited, and the answer has
  \<open>ok: false\<close>. The answer is the 400 "missing or invalid values" one whenever the
  destination resolves, which it does for every override that is absent or is not an
  array or an object; when converting the override to a string raises, the answer is
  the 500 internal-error one.
\<close>

theorem upload_invalid_values:
  "\<not> isArray (get req_body ''values'') \<Longrightarrow>
     calls (snd (upload e req_body tr)) = calls tr
   \<and> sleeps (snd (upload e req_body tr)) = sleeps tr
   \<and> map_of (body (fst (upload e req_body tr))) ''ok'' = Some (JBool False)
   \<and> (code (fst (upload e req_body tr)) = 400 \<or> code (fst (upload e req_body tr)) = 500)
   \<and> ((\<exists>target. scriptUrl e req_body = Inr target) \<longrightarrow>
        fst (upload e req_body tr) =
          \<lparr>code = 400,
           body = [(''ok'', JBool False),
                   (''error'', JStr (''Missing or invalid '' @ quoted ''values'' @ '' array in payload.''))]\<rparr>)
   \<and> ((\<forall>xs. get req_body ''googleScriptUrl'' \<noteq> Some (JArr xs)) \<and>
        (\<forall>kvs. get req_body ''googleScriptUrl'' \<noteq> Some (JObj kvs)) \<longrightarrow>
        code (fst (upload e req_body tr)) = 400)
   \<and> ((\<exists>err. scriptUrl e req_body = Inl err) \<longrightarrow> code (fst (upload e req_body tr)) = 500)"
proof (cases "scriptUrl e req_body")
  case (Inl err)
  assume "\<not> isArray (get req_body ''values'')"
  have raises: "\<not> ((\<forall>xs. get req_body ''googleScriptUrl'' \<noteq> Some (JArr xs)) \<and>
        (\<forall>kvs. get req_body ''googleScriptUrl'' \<noteq> Some (JObj kvs)))"
    using scriptUrl_primitive [of req_body e] Inl by auto
  from Inl raises show ?thesis
    by (simp add: upload_raised)
next
  case (Inr target)
  assume "\<not> isArray (get req_body ''values'')"
  with Inr show ?thesis
    by (simp add: upload_invalid)
qed

theorem upload_invalid_values_witness:
  "upload (scripted []) [(''sheetName'', JStr ''Trades''), (''values'', JStr ''a,b'')] fresh =
     (\<lparr>code = 400,
       body = [(''ok'', JBool False),
               (''error'', JStr (''Missing or invalid '' @ quoted ''values'' @ '' array in payload.''))]\<rparr>,
      [ClockRead])"
proof -
  let ?b = "[(''sheetName'', JStr ''Trades''), (''values'', JStr ''a,b'')]"
  let ?out = "upload (scripted []) ?b fresh"
  have invalid: "\<not> isArray (get ?b ''values'')"
    by (simp add: get_def)
  have resolves: "\<exists>target. scriptUrl (scripted []) ?b = Inr target"
    by (simp add: scriptUrl_def get_def)
  from upload_invalid_values [OF invalid, of "scripted []" fresh] resolves
  have "calls (snd ?out) = calls fresh" and "sleeps (snd ?out) = sleeps fresh"
    and "fst ?out =
          \<lparr>code = 400,
           body = [(''ok'', JBool False),
                   (''error'', JStr (''Missing or invalid '' @ quoted ''values'' @ '' array in payload.''))]\<rparr>"
    by blast+
  moreover have "snd ?out = [ClockRead]"
    using resolves invalid by (auto simp: upload_invalid fresh_def)
  ultimately show ?thesis
    by (cases ?out) simp
qed

section \<open>Relay pipeline: forwarding and retry\<close>

text \<open>
  The second turn of the loop always sends one call and awaits no timer; it reads the
  clock afterwards unless it ends in the reply for a failure answer.
\<close>

lemma relay_loop_last_turn_log:
  "snd (relay_loop e rq startTime (Suc 0) lastErr tr) = tr @ [Called rq]
   \<or> snd (relay_loop e rq startTime (Suc 0) lastErr tr) = tr @ [Called rq, ClockRead]"
proof (cases "upstream e (length (calls tr)) rq")
  case (Rejected err)
  then show ?thesis
    by (simp add: relay_loop_rejected_last)
next
  case (Resolved r)
  show ?thesis
  proof (cases "ok r \<or> status r = 302")
    case True
    with Resolved show ?thesis
      by (simp add: relay_loop_success [where n = "Suc 0"])
  next
    case False
    with Resolved show ?thesis
      by (simp add: relay_loop_stop [where n = "Suc 0"])
  qed
qed

lemma relay_loop_last_turn:
  "calls (snd (relay_loop e rq startTime (Suc 0) lastErr tr)) = calls tr @ [rq]
   \<and> sleeps (snd (relay_loop e rq startTime (Suc 0) lastErr tr)) = sleeps tr"
  using relay_loop_last_turn_log [of e rq startTime lastErr tr] by auto

text \<open>
  A transient failure of the first call leads to the second turn, and the 500 ms timer
  lies between the first call and that turn.
\<close>

lemma relay_loop_transient_first:
  assumes "case upstream e (length (calls tr)) rq of
             Rejected err \<Rightarrow> True | Resolved r \<Rightarrow> 500 \<le> status r"
  shows "\<exists>lastErr'. relay_loop e rq startTime 0 lastErr tr =
           relay_loop e rq startTime (Suc 0) lastErr' (tr @ [Called rq, Slept 500])"
proof (cases "upstream e (length (calls tr)) rq")
  case (Rejected err)
  then show ?thesis
    by (auto simp: relay_loop_retry_rejected)
next
  case (Resolved r)
  with assms have "500 \<le> status r"
    by simp
  with Resolved show ?thesis
    by (auto simp: relay_loop_retry_status)
qed

lemma relay_loop_calls:
  "(calls (snd (relay_loop e rq startTime 0 lastErr tr)) = calls tr @ [rq]
      \<and> sleeps (snd (relay_loop e rq startTime 0 lastErr tr)) = sleeps tr)
   \<or> (calls (snd (relay_loop e rq startTime 0 lastErr tr)) = calls tr @ [rq, rq]
      \<and> sleeps (snd (relay_loop e rq startTime 0 lastErr tr)) = sleeps tr @ [500])"
proof (cases "case upstream e (length (calls tr)) rq of
                Rejected err \<Rightarrow> True | Resolved r \<Rightarrow> 500 \<le> status r")
  case True
  from relay_loop_transient_first [OF True, of startTime lastErr]
  obtain lastErr' where "relay_loop e rq startTime 0 lastErr tr =
           relay_loop e rq startTime (Suc 0) lastErr' (tr @ [Called rq, Slept 500])"
    by blast
  then show ?thesis
    by (simp add: relay_loop_last_turn)
next
  case False
  then obtain r where resolved: "upstream e (length (calls tr)) rq = Resolved r"
    and below: "status r < 500"
    by (cases "upstream e (length (calls tr)) rq") auto
  show ?thesis
  proof (cases "ok r \<or> status r = 302")
    case True
    with resolved show ?thesis
      by (simp add: relay_loop_success [where n = 0])
  next
    case False
    with resolved below show ?thesis
      by (simp add: relay_loop_stop [where n = 0])
  qed
qed

text \<open>
  C2. For every valid upload request (the destination resolves and \<open>values\<close> is an
  array) at most two outbound calls are made. When the first call fails transiently
  (it is rejected at the network level, or answers with a status of 500 or more) the
  handler awaits one 500 ms timer and sends the same request exactly once more, in
  that order: what it adds to the log is the reading of the start time, the first
  call, the timer, the second call, and at most a final reading of the clock. If
  the second call answers with a success status the reply is 200 with \<open>ok: true\<close>
  and the second status. If the second call fails transiently too the reply is 502
  with \<open>ok: false\<close> and the detail of the last error: the message of the second
  rejection under \<open>details\<close>, or the second status and body under \<open>status\<close> and
  \<open>gasResponse\<close>.
\<close>

theorem retry_once_on_transient_failure:
  assumes "scriptUrl e req_body = Inr target" and "isArray (get req_body ''values'')"
    and "rq = post_request target (forward req_body)"
    and "out = upload e req_body tr"
    and "elapsed = clock e (Suc (reads tr)) - clock e (reads tr)"
  shows
    "length (calls (snd out)) \<le> length (calls tr) + 2
     \<and> ((case upstream e (length (calls tr)) rq of
            Rejected err \<Rightarrow> True | Resolved r \<Rightarrow> 500 \<le> status r) \<longrightarrow>
          calls (snd out) = calls tr @ [rq, rq]
          \<and> sleeps (snd out) = sleeps tr @ [500]
          \<and> (snd out = tr @ [ClockRead, Called rq, Slept 500, Called rq]
             \<or> snd out = tr @ [ClockRead, Called rq, Slept 500, Called rq, ClockRead])
          \<and> (\<forall>r2. upstream e (Suc (length (calls tr))) rq = Resolved r2 \<and> (ok r2 \<or> status r2 = 302) \<longrightarrow>
                out =
                  (\<lparr>code = 200,
                    body = [(''ok'', JBool True),
                            (''forwarded'', JBool True),
                            (''status'', JNum (int (status r2))),
                            (''text'', JStr (text_or_empty r2)),
                            (''elapsed'', JStr (elapsed_ms elapsed))]\<rparr>,
                   tr @ [ClockRead, Called rq, Slept 500, Called rq, ClockRead]))
          \<and> (\<forall>err2. upstream e (Suc (length (calls tr))) rq = Rejected err2 \<longrightarrow>
                out =
                  (\<lparr>code = 502,
                    body = [(''ok'', JBool False),
                            (''error'', JStr ''Forward failed after retry''),
                            (''details'', JStr (message err2)),
                            (''elapsed'', JStr (elapsed_ms elapsed))]\<rparr>,
                   tr @ [ClockRead, Called rq, Slept 500, Called rq, ClockRead]))
          \<and> (\<forall>r2. upstream e (Suc (length (calls tr))) rq = Resolved r2 \<and> 500 \<le> status r2 \<longrightarrow>
                out =
                  (\<lparr>code = 502,
                    body = [(''ok'', JBool False),
                            (''error'', JStr (''Forward failed '' @ show_nat (status r2))),
                            (''status'', JNum (int (status r2))),
                            (''gasResponse'', JStr (text_or_empty r2))]\<rparr>,
                   tr @ [ClockRead, Called rq, Slept 500, Called rq])))"
proof -
  let ?tr1 = "tr @ [ClockRead]"
  let ?tr2 = "tr @ [ClockRead, Called rq, Slept 500]"
  have out: "out = relay_loop e rq (clock e (reads tr)) 0 JNull ?tr1"
    using assms by (simp add: upload_valid)
  have bound: "length (calls (snd out)) \<le> length (calls tr) + 2"
    using relay_loop_calls [of e rq "clock e (reads tr)" JNull ?tr1] out by auto
  have retried: "calls (snd out) = calls tr @ [rq, rq] \<and> sleeps (snd out) = sleeps tr @ [500]
      \<and> (snd out = tr @ [ClockRead, Called rq, Slept 500, Called rq]
         \<or> snd out = tr @ [ClockRead, Called rq, Slept 500, Called rq, ClockRead])
      \<and> (\<forall>r2. upstream e (Suc (length (calls tr))) rq = Resolved r2 \<and> (ok r2 \<or> status r2 = 302) \<longrightarrow>
            out =
              (\<lparr>code = 200,
                body = [(''ok'', JBool True),
                        (''forwarded'', JBool True),
                        (''status'', JNum (int (status r2))),
                        (''text'', JStr (text_or_empty r2)),
                        (''elapsed'', JStr (elapsed_ms elapsed))]\<rparr>,
               tr @ [ClockRead, Called rq, Slept 500, Called rq, ClockRead]))
      \<and> (\<forall>err2. upstream e (Suc (length (calls tr))) rq = Rejected err2 \<longrightarrow>
            out =
              (\<lparr>code = 502,
                body = [(''ok'', JBool False),
                        (''error'', JStr ''Forward failed after retry''),
                        (''details'', JStr (message err2)),
                        (''elapsed'', JStr (elapsed_ms elapsed))]\<rparr>,
               tr @ [ClockRead, Called rq, Slept 500, Called rq, ClockRead]))
      \<and> (\<forall>r2. upstream e (Suc (length (calls tr))) rq = Resolved r2 \<and> 500 \<le> status r2 \<longrightarrow>
            out =
              (\<lparr>code = 502,
                body = [(''ok'', JBool False),
                        (''error'', JStr (''Forward failed '' @ show_nat (status r2))),
                        (''status'', JNum (int (status r2))),
                        (''gasResponse'', JStr (text_or_empty r2))]\<rparr>,
               tr @ [ClockRead, Called rq, Slept 500, Called rq]))"
    if transient: "case upstream e (length (calls tr)) rq of
                     Rejected err \<Rightarrow> True | Resolved r \<Rightarrow> 500 \<le> status r"
  proof -
    from transient have "case upstream e (length (calls ?tr1)) rq of
                     Rejected err \<Rightarrow> True | Resolved r \<Rightarrow> 500 \<le> status r"
      by simp
    from relay_loop_transient_first [OF this, of "clock e (reads tr)" JNull] out
    obtain lastErr' where second: "out = relay_loop e rq (clock e (reads tr)) (Suc 0) lastErr' ?tr2"
      by auto
    have sent: "calls (snd out) = calls tr @ [rq, rq] \<and> sleeps (snd out) = sleeps tr @ [500]"
      using relay_loop_last_turn [of e rq "clock e (reads tr)" lastErr' ?tr2] second by simp
    have order: "snd out = tr @ [ClockRead, Called rq, Slept 500, Called rq]
         \<or> snd out = tr @ [ClockRead, Called rq, Slept 500, Called rq, ClockRead]"
      using relay_loop_last_turn_log [of e rq "clock e (reads tr)" lastErr' ?tr2] second by simp
    have succeeded: "out =
              (\<lparr>code = 200,
                body = [(''ok'', JBool True),
                        (''forwarded'', JBool True),
                        (''status'', JNum (int (status r2))),
                        (''text'', JStr (text_or_empty r2)),
                        (''elapsed'', JStr (elapsed_ms elapsed))]\<rparr>,
               tr @ [ClockRead, Called rq, Slept 500, Called rq, ClockRead])"
      if "upstream e (Suc (length (calls tr))) rq = Resolved r2" and "ok r2 \<or> status r2 = 302" for r2
      using that second assms(5)
      by (simp add: relay_loop_success [where n = "Suc 0" and tr = ?tr2])
    have rejected: "out =
              (\<lparr>code = 502,
                body = [(''ok'', JBool False),
                        (''error'', JStr ''Forward failed after retry''),
                        (''details'', JStr (message err2)),
                        (''elapsed'', JStr (elapsed_ms elapsed))]\<rparr>,
               tr @ [ClockRead, Called rq, Slept 500, Called rq, ClockRead])"
      if "upstream e (Suc (length (calls tr))) rq = Rejected err2" for err2
      using that second assms(5)
      by (simp add: relay_loop_rejected_last [where tr = ?tr2])
    have failed: "out =
              (\<lparr>code = 502,
                body = [(''ok'', JBool False),
                        (''error'', JStr (''Forward failed '' @ show_nat (status r2))),
                        (''status'', JNum (int (status r2))),
                        (''gasResponse'', JStr (text_or_empty r2))]\<rparr>,
               tr @ [ClockRead, Called rq, Slept 500, Called rq])"
      if "upstream e (Suc (length (calls tr))) rq = Resolved r2" and "500 \<le> status r2" for r2
      using that second server_error_not_success [of r2]
      by (simp add: relay_loop_stop [where n = "Suc 0" and tr = ?tr2])
    from sent order succeeded rejected failed show ?thesis
      by blast
  qed
  from bound retried show ?thesis
    by blast
qed

theorem retry_once_on_transient_failure_witness:
  "upload (scripted [Resolved (plain 500 ''busy''), Resolved (plain 200 ''done'')])
     [(''values'', JArr [JArr [JStr ''BTCUSD'', JNum 1]])] fresh =
     (\<lparr>code = 200,
       body = [(''ok'', JBool True),
               (''forwarded'', JBool True),
               (''status'', JNum 200),
               (''text'', JStr ''done''),
               (''elapsed'', JStr ''700ms'')]\<rparr>,
      [ClockRead,
       Called (post_request ''https://sheet.example/exec''
          (JObj [(''sheetName'', JStr ''Sheet1''), (''values'', JArr [JArr [JStr ''BTCUSD'', JNum 1]])])),
       Slept 500,
       Called (post_request ''https://sheet.example/exec''
          (JObj [(''sheetName'', JStr ''Sheet1''), (''values'', JArr [JArr [JStr ''BTCUSD'', JNum 1]])])),
       ClockRead])"
proof -
  let ?e = "scripted [Resolved (plain 500 ''busy''), Resolved (plain 200 ''done'')]"
  let ?b = "[(''values'', JArr [JArr [JStr ''BTCUSD'', JNum 1]])]"
  let ?rq = "post_request ''https://sheet.example/exec'' (forward ?b)"
  have target: "scriptUrl ?e ?b = Inr ''https://sheet.example/exec''"
    by (simp add: scriptUrl_def get_def DEFAULT_GOOGLE_SCRIPT_def env_or_def scripted_def)
  have valid: "isArray (get ?b ''values'')"
    by (simp add: get_def)
  have fwd: "forward ?b =
      JObj [(''sheetName'', JStr ''Sheet1''), (''values'', JArr [JArr [JStr ''BTCUSD'', JNum 1]])]"
    by (simp add: forward_def get_def or_else_def)
  have first: "case upstream ?e (length (calls fresh)) ?rq of
                 Rejected err \<Rightarrow> True | Resolved r \<Rightarrow> 500 \<le> status r"
    by (simp add: scripted_def fresh_def plain_def)
  have second: "upstream ?e (Suc (length (calls fresh))) ?rq = Resolved (plain 200 ''done'')
      \<and> (ok (plain 200 ''done'') \<or> status (plain 200 ''done'') = 302)"
    by (simp add: scripted_def fresh_def plain_def ok_def)
  have elapsed: "elapsed_ms (clock ?e (Suc (reads fresh)) - clock ?e (reads fresh)) = ''700ms''"
    by (simp add: scripted_def fresh_def elapsed_ms_def show_number)
  from retry_once_on_transient_failure [OF target valid refl refl refl, of fresh] first second
  have "upload ?e ?b fresh =
          (\<lparr>code = 200,
            body = [(''ok'', JBool True),
                    (''forwarded'', JBool True),
                    (''status'', JNum (int (status (plain 200 ''done'')))),
                    (''text'', JStr (text_or_empty (plain 200 ''done''))),
                    (''elapsed'', JStr (elapsed_ms (clock ?e (Suc (reads fresh)) - clock ?e (reads fresh))))]\<rparr>,
           fresh @ [ClockRead, Called ?rq, Slept 500, Called ?rq, ClockRead])"
    by blast
  then show ?thesis
    by (simp add: elapsed fwd text_or_empty_def) (simp add: fresh_def plain_def)
qed

text \<open>
  C3. For every valid upload request whose first outbound call answers with a status
  that is not a success (200 to 299, or 302) and is below 500, the reply is 502 with
  \<open>ok: false\<close>, the upstream status and the raw upstream body, after exactly one call
  and no timer: the log grows by the reading of the start time and that one call.
  The same holds in any turn of the loop: whatever the attempt count, such an answer
  ends the loop with that reply, one call later and with no timer.
\<close>

theorem permanent_failure_not_retried:
  assumes "scriptUrl e req_body = Inr target" and "isArray (get req_body ''values'')"
    and "rq = post_request target (forward req_body)"
    and "\<not> ok r" and "status r \<noteq> 302" and "status r < 500"
  shows
    "(upstream e (length (calls tr)) rq = Resolved r \<longrightarrow>
        upload e req_body tr =
          (\<lparr>code = 502,
            body = [(''ok'', JBool False),
                    (''error'', JStr (''Forward failed '' @ show_nat (status r))),
                    (''status'', JNum (int (status r))),
                    (''gasResponse'', JStr (case text_result r of Some t \<Rightarrow> t | None \<Rightarrow> []))]\<rparr>,
           tr @ [ClockRead, Called rq]))
     \<and> (\<forall>n startTime lastErr tr'.
          n < 2 \<and> upstream e (length (calls tr')) rq = Resolved r \<longrightarrow>
          relay_loop e rq startTime n lastErr tr' =
            (\<lparr>code = 502,
              body = [(''ok'', JBool False),
                      (''error'', JStr (''Forward failed '' @ show_nat (status r))),
                      (''status'', JNum (int (status r))),
                      (''gasResponse'', JStr (case text_result r of Some t \<Rightarrow> t | None \<Rightarrow> []))]\<rparr>,
             tr' @ [Called rq]))"
proof -
  have turn: "relay_loop e rq startTime n lastErr tr' =
            (\<lparr>code = 502,
              body = [(''ok'', JBool False),
                      (''error'', JStr (''Forward failed '' @ show_nat (status r))),
                      (''status'', JNum (int (status r))),
                      (''gasResponse'', JStr (case text_result r of Some t \<Rightarrow> t | None \<Rightarrow> []))]\<rparr>,
             tr' @ [Called rq])"
    if "n < 2" and "upstream e (length (calls tr')) rq = Resolved r" for n startTime lastErr tr'
    using that assms(4-6) by (simp add: relay_loop_stop text_or_empty_def)
  have "upload e req_body tr =
          (\<lparr>code = 502,
            body = [(''ok'', JBool False),
                    (''error'', JStr (''Forward failed '' @ show_nat (status r))),
                    (''status'', JNum (int (status r))),
                    (''gasResponse'', JStr (case text_result r of Some t \<Rightarrow> t | None \<Rightarrow> []))]\<rparr>,
           tr @ [ClockRead, Called rq])"
    if "upstream e (length (calls tr)) rq = Resolved r"
    using that assms(1-3)
      turn [of 0 "tr @ [ClockRead]"]
    by (simp add: upload_valid)
  with turn show ?thesis
    by blast
qed

theorem permanent_failure_not_retried_witness:
  "upload (scripted [Resolved (plain 403 ''Forbidden''), Resolved (plain 200 ''done'')])
     [(''values'', JArr []), (''sheetName'', JStr ''Trades'')] fresh =
     (\<lparr>code = 502,
       body = [(''ok'', JBool False),
               (''error'', JStr ''Forward failed 403''),
               (''status'', JNum 403),
               (''gasResponse'', JStr ''Forbidden'')]\<rparr>,
      [ClockRead,
       Called (post_request ''https://sheet.example/exec''
                 (JObj [(''sheetName'', JStr ''Trades''), (''values'', JArr [])]))])"
proof -
  let ?e = "scripted [Resolved (plain 403 ''Forbidden''), Resolved (plain 200 ''done'')]"
  let ?b = "[(''values'', JArr []), (''sheetName'', JStr ''Trades'')]"
  let ?rq = "post_request ''https://sheet.example/exec'' (forward ?b)"
  have target: "scriptUrl ?e ?b = Inr ''https://sheet.example/exec''"
    by (simp add: scriptUrl_def get_def DEFAULT_GOOGLE_SCRIPT_def env_or_def scripted_def)
  have valid: "isArray (get ?b ''values'')"
    by (simp add: get_def)
  have fwd: "forward ?b = JObj [(''sheetName'', JStr ''Trades''), (''values'', JArr [])]"
    by (simp add: forward_def get_def or_else_def)
  have forbidden: "\<not> ok (plain 403 ''Forbidden'')" "status (plain 403 ''Forbidden'') \<noteq> 302"
    "status (plain 403 ''Forbidden'') < 500"
    by (simp_all add: plain_def ok_def)
  have first: "upstream ?e (length (calls fresh)) ?rq = Resolved (plain 403 ''Forbidden'')"
    by (simp add: scripted_def fresh_def)
  have shown: "show_nat (status (plain 403 ''Forbidden'')) = ''403''"
    by (simp add: plain_def show_number)
  from permanent_failure_not_retried [OF target valid refl forbidden, of fresh] first
  have "upload ?e ?b fresh =
          (\<lparr>code = 502,
            body = [(''ok'', JBool False),
                    (''error'', JStr (''Forward failed '' @ show_nat (status (plain 403 ''Forbidden'')))),
                    (''status'', JNum (int (status (plain 403 ''Forbidden'')))),
                    (''gasResponse'', JStr (case text_result (plain 403 ''Forbidden'') of
                                              Some t \<Rightarrow> t | None \<Rightarrow> []))]\<rparr>,
           fresh @ [ClockRead, Called ?rq])"
    by blast
  then show ?thesis
    by (simp add: shown fwd) (simp add: fresh_def plain_def)
qed

text \<open>
  C4. For every valid upload request, an outbound call that answers with status 302
  counts as a success: the reply is 200 with \<open>ok: true\<close>, \<open>status: 302\<close> and the
  upstream body text as read (the empty text if reading it fails). This holds for the
  first call, and for the second call after a transient failure of the first (then
  the log shows the first call, the 500 ms timer and the second call, in that order).
\<close>

theorem redirect_is_success:
  assumes "scriptUrl e req_body = Inr target" and "isArray (get req_body ''values'')"
    and "rq = post_request target (forward req_body)"
    and "elapsed = clock e (Suc (reads tr)) - clock e (reads tr)"
    and "status r = 302"
  shows
    "(upstream e (length (calls tr)) rq = Resolved r \<longrightarrow>
        upload e req_body tr =
          (\<lparr>code = 200,
            body = [(''ok'', JBool True),
                    (''forwarded'', JBool True),
                    (''status'', JNum 302),
                    (''text'', JStr (case text_result r of Some t \<Rightarrow> t | None \<Rightarrow> [])),
                    (''elapsed'', JStr (elapsed_ms elapsed))]\<rparr>,
           tr @ [ClockRead, Called rq, ClockRead]))
     \<and> ((case upstream e (length (calls tr)) rq of
            Rejected err \<Rightarrow> True | Resolved r1 \<Rightarrow> 500 \<le> status r1)
          \<and> upstream e (Suc (length (calls tr))) rq = Resolved r \<longrightarrow>
        upload e req_body tr =
          (\<lparr>code = 200,
            body = [(''ok'', JBool True),
                    (''forwarded'', JBool True),
                    (''status'', JNum 302),
                    (''text'', JStr (case text_result r of Some t \<Rightarrow> t | None \<Rightarrow> [])),
                    (''elapsed'', JStr (elapsed_ms elapsed))]\<rparr>,
           tr @ [ClockRead, Called rq, Slept 500, Called rq, ClockRead]))"
proof -
  let ?tr1 = "tr @ [ClockRead]"
  let ?tr2 = "tr @ [ClockRead, Called rq, Slept 500]"
  have out: "upload e req_body tr = relay_loop e rq (clock e (reads tr)) 0 JNull ?tr1"
    using assms(1-3) by (simp add: upload_valid)
  have at_once: "upload e req_body tr =
          (\<lparr>code = 200,
            body = [(''ok'', JBool True),
                    (''forwarded'', JBool True),
                    (''status'', JNum 302),
                    (''text'', JStr (case text_result r of Some t \<Rightarrow> t | None \<Rightarrow> [])),
                    (''elapsed'', JStr (elapsed_ms elapsed))]\<rparr>,
           tr @ [ClockRead, Called rq, ClockRead])"
    if "upstream e (length (calls tr)) rq = Resolved r"
    using that assms(4,5) out
    by (simp add: relay_loop_success [where n = 0 and tr = ?tr1] text_or_empty_def)
  have after_retry: "upload e req_body tr =
          (\<lparr>code = 200,
            body = [(''ok'', JBool True),
                    (''forwarded'', JBool True),
                    (''status'', JNum 302),
                    (''text'', JStr (case text_result r of Some t \<Rightarrow> t | None \<Rightarrow> [])),
                    (''elapsed'', JStr (elapsed_ms elapsed))]\<rparr>,
           tr @ [ClockRead, Called rq, Slept 500, Called rq, ClockRead])"
    if transient: "case upstream e (length (calls tr)) rq of
            Rejected err \<Rightarrow> True | Resolved r1 \<Rightarrow> 500 \<le> status r1"
      and second: "upstream e (Suc (length (calls tr))) rq = Resolved r"
  proof -
    from transient have "case upstream e (length (calls ?tr1)) rq of
                     Rejected err \<Rightarrow> True | Resolved r1 \<Rightarrow> 500 \<le> status r1"
      by simp
    from relay_loop_transient_first [OF this, of "clock e (reads tr)" JNull] out
    obtain lastErr' where
      "upload e req_body tr = relay_loop e rq (clock e (reads tr)) (Suc 0) lastErr' ?tr2"
      by auto
    with second assms(4,5) show ?thesis
      by (simp add: relay_loop_success [where n = "Suc 0" and tr = ?tr2] text_or_empty_def)
  qed
  from at_once after_retry show ?thesis
    by blast
qed

theorem redirect_is_success_witness:
  "upload (scripted [Resolved (plain 302 ''Moved Temporarily'')])
     [(''values'', JArr [JArr [JNum 1, JNum 2]])] fresh =
     (\<lparr>code = 200,
       body = [(''ok'', JBool True),
               (''forwarded'', JBool True),
               (''status'', JNum 302),
               (''text'', JStr ''Moved Temporarily''),
               (''elapsed'', JStr ''700ms'')]\<rparr>,
      [ClockRead,
       Called (post_request ''https://sheet.example/exec''
                 (JObj [(''sheetName'', JStr ''Sheet1''), (''values'', JArr [JArr [JNum 1, JNum 2]])])),
       ClockRead])"
proof -
  let ?e = "scripted [Resolved (plain 302 ''Moved Temporarily'')]"
  let ?b = "[(''values'', JArr [JArr [JNum 1, JNum 2]])]"
  let ?rq = "post_request ''https://sheet.example/exec'' (forward ?b)"
  have target: "scriptUrl ?e ?b = Inr ''https://sheet.example/exec''"
    by (simp add: scriptUrl_def get_def DEFAULT_GOOGLE_SCRIPT_def env_or_def scripted_def)
  have valid: "isArray (get ?b ''values'')"
    by (simp add: get_def)
  have fwd: "forward ?b =
      JObj [(''sheetName'', JStr ''Sheet1''), (''values'', JArr [JArr [JNum 1, JNum 2]])]"
    by (simp add: forward_def get_def or_else_def)
  have redirect: "status (plain 302 ''Moved Temporarily'') = 302"
    by (simp add: plain_def)
  have first: "upstream ?e (length (calls fresh)) ?rq = Resolved (plain 302 ''Moved Temporarily'')"
    by (simp add: scripted_def fresh_def)
  have elapsed: "elapsed_ms (clock ?e (Suc (reads fresh)) - clock ?e (reads fresh)) = ''700ms''"
    by (simp add: scripted_def fresh_def elapsed_ms_def show_number)
  from redirect_is_success [OF target valid refl refl redirect, of fresh] first
  have "upload ?e ?b fresh =
          (\<lparr>code = 200,
            body = [(''ok'', JBool True),
                    (''forwarded'', JBool True),
                    (''status'', JNum 302),
                    (''text'', JStr (case text_result (plain 302 ''Moved Temporarily'') of
                                       Some t \<Rightarrow> t | None \<Rightarrow> [])),
                    (''elapsed'', JStr (elapsed_ms (clock ?e (Suc (reads fresh)) - clock ?e (reads fresh))))]\<rparr>,
           fresh @ [ClockRead, Called ?rq, ClockRead])"
    by blast
  then show ?thesis
    by (simp add: elapsed fwd) (simp add: fresh_def plain_def)
qed

section \<open>Relay pipeline: elapsed time in the reply\<close>

text \<open>
  The success reply, the reply after two failed attempts that ended in a rejection,
  and the internal-error reply carry \<open>elapsed\<close> (lemmas \<open>relay_loop_success\<close>,
  \<open>relay_loop_exhausted\<close>, \<open>upload_raised\<close>). The reply built in the branch for a
  failure answer does not.
\<close>

lemma relay_loop_stop_no_elapsed:
  "n < 2 \<Longrightarrow> upstream e (length (calls tr)) rq = Resolved r \<Longrightarrow>
   \<not> ok r \<Longrightarrow> status r \<noteq> 302 \<Longrightarrow> status r < 500 \<or> n = Suc 0 \<Longrightarrow>
   map_of (body (fst (relay_loop e rq startTime n lastErr tr))) ''elapsed'' = None"
  by (simp add: relay_loop_stop)

text \<open>
  C5 does not hold of the code. A valid request whose destination answers 403 gets
  the 502 reply with \<open>ok\<close>, \<open>error\<close>, \<open>status\<close> and \<open>gasResponse\<close>, and no
  \<open>elapsed\<close> member.
\<close>

theorem permanent_failure_reply_lacks_elapsed:
  "fst (upload (scripted [Resolved (plain 403 ''Forbidden'')]) [(''values'', JArr [])] fresh) =
     \<lparr>code = 502,
      body = [(''ok'', JBool False),
              (''error'', JStr ''Forward failed 403''),
              (''status'', JNum 403),
              (''gasResponse'', JStr ''Forbidden'')]\<rparr>
   \<and> map_of (body (fst (upload (scripted [Resolved (plain 403 ''Forbidden'')])
                          [(''values'', JArr [])] fresh))) ''elapsed'' = None"
proof -
  let ?e = "scripted [Resolved (plain 403 ''Forbidden'')]"
  let ?b = "[(''values'', JArr [])]"
  let ?rq = "post_request ''https://sheet.example/exec'' (forward ?b)"
  let ?tr1 = "fresh @ [ClockRead]"
  have target: "scriptUrl ?e ?b = Inr ''https://sheet.example/exec''"
    by (simp add: scriptUrl_def get_def DEFAULT_GOOGLE_SCRIPT_def env_or_def scripted_def)
  have valid: "isArray (get ?b ''values'')"
    by (simp add: get_def)
  have out: "upload ?e ?b fresh = relay_loop ?e ?rq (clock ?e (reads fresh)) 0 JNull ?tr1"
    using target valid by (rule upload_valid)
  have first: "upstream ?e (length (calls ?tr1)) ?rq = Resolved (plain 403 ''Forbidden'')"
    by (simp add: scripted_def fresh_def)
  have forbidden: "\<not> ok (plain 403 ''Forbidden'')" "status (plain 403 ''Forbidden'') \<noteq> 302"
    "status (plain 403 ''Forbidden'') < 500 \<or> (0::nat) = Suc 0"
    by (simp_all add: plain_def ok_def)
  have shown: "show_nat 403 = ''403''"
    by (simp add: show_number)
  have "fst (upload ?e ?b fresh) =
     \<lparr>code = 502,
      body = [(''ok'', JBool False),
              (''error'', JStr (''Forward failed '' @ show_nat (status (plain 403 ''Forbidden'')))),
              (''status'', JNum (int (status (plain 403 ''Forbidden'')))),
              (''gasResponse'', JStr (text_or_empty (plain 403 ''Forbidden'')))]\<rparr>"
    using relay_loop_stop [where n = 0 and startTime = "clock ?e (reads fresh)" and lastErr = JNull,
        OF _ first forbidden] out
    by simp
  then have "fst (upload ?e ?b fresh) =
     \<lparr>code = 502,
      body = [(''ok'', JBool False),
              (''error'', JStr ''Forward failed 403''),
              (''status'', JNum 403),
              (''gasResponse'', JStr ''Forbidden'')]\<rparr>"
    by (simp add: plain_def text_or_empty_def shown)
  then show ?thesis
    by simp
qed

theorem permanent_failure_reply_lacks_elapsed_witness:
  "map_of (body (fst (upload (scripted [Resolved (plain 403 ''Forbidden'')])
                        [(''values'', JArr [])] fresh))) ''status'' = Some (JNum 403)
   \<and> map_of (body (fst (upload (scripted [Resolved (plain 403 ''Forbidden'')])
                          [(''values'', JArr [])] fresh))) ''elapsed'' = None"
  using permanent_failure_reply_lacks_elapsed by simp

section \<open>Relay pipeline: what is forwarded\<close>

lemma relay_loop_sends_request:
  "c \<in> set (drop (length (calls tr)) (calls (snd (relay_loop e rq startTime 0 lastErr tr)))) \<Longrightarrow>
   c = rq"
  using relay_loop_calls [of e rq startTime lastErr tr] by auto

lemma relay_loop_sends_some:
  "drop (length (calls tr)) (calls (snd (relay_loop e rq startTime 0 lastErr tr))) \<noteq> []"
  using relay_loop_calls [of e rq startTime lastErr tr] by auto

text \<open>
  C6. For every valid upload request at least one outbound call is made, and every
  call made carries as its body the object with exactly the two members
  \<open>sheetName\<close> and \<open>values\<close>: \<open>values\<close> is the request's array unchanged, and
  \<open>sheetName\<close> is the request's, or \<open>"Sheet1"\<close> when the request has none (or a
  falsy one). The override is not a member of that body, and two requests that
  differ only in their override are forwarded with the same body.
\<close>

theorem forwarded_body:
  assumes "scriptUrl e req_body = Inr target" and "get req_body ''values'' = Some (JArr rows)"
  shows
    "forward req_body =
       JObj [(''sheetName'',
              (case get req_body ''sheetName'' of
                 None \<Rightarrow> JStr ''Sheet1''
               | Some name \<Rightarrow> if truthy name then name else JStr ''Sheet1'')),
             (''values'', JArr rows)]
     \<and> drop (length (calls tr)) (calls (snd (upload e req_body tr))) \<noteq> []
     \<and> (\<forall>c \<in> set (drop (length (calls tr)) (calls (snd (upload e req_body tr)))).
          url c = target \<and> request_method c = POST \<and> payload c = Some (forward req_body))
     \<and> (\<forall>other. (\<forall>name. name \<noteq> ''googleScriptUrl'' \<longrightarrow> get other name = get req_body name) \<longrightarrow>
          forward other = forward req_body)"
proof -
  let ?tr1 = "tr @ [ClockRead]"
  let ?rq = "post_request target (forward req_body)"
  have shape: "forward req_body =
       JObj [(''sheetName'',
              (case get req_body ''sheetName'' of
                 None \<Rightarrow> JStr ''Sheet1''
               | Some name \<Rightarrow> if truthy name then name else JStr ''Sheet1'')),
             (''values'', JArr rows)]"
    using assms(2) by (simp add: forward_def or_else_def split: option.split)
  have out: "upload e req_body tr = relay_loop e ?rq (clock e (reads tr)) 0 JNull ?tr1"
    using assms by (simp add: upload_valid)
  have some: "drop (length (calls tr)) (calls (snd (upload e req_body tr))) \<noteq> []"
    using relay_loop_sends_some [of ?tr1 e ?rq "clock e (reads tr)" JNull] out by simp
  have each: "url c = target \<and> request_method c = POST \<and> payload c = Some (forward req_body)"
    if "c \<in> set (drop (length (calls tr)) (calls (snd (upload e req_body tr))))" for c
  proof -
    from that out have "c = ?rq"
      using relay_loop_sends_request [of c ?tr1 e ?rq "clock e (reads tr)" JNull] by simp
    then show ?thesis
      by (simp add: post_request_def)
  qed
  have same: "forward other = forward req_body"
    if "\<forall>name. name \<noteq> ''googleScriptUrl'' \<longrightarrow> get other name = get req_body name" for other
  proof -
    from that have "get other ''sheetName'' = get req_body ''sheetName''"
      and "get other ''values'' = get req_body ''values''"
      by simp_all
    then show ?thesis
      by (simp add: forward_def)
  qed
  from shape some each same show ?thesis
    by blast
qed

theorem forwarded_body_witness:
  "payload (hd (calls (snd (upload (scripted [Resolved (plain 200 ''done'')])
       [(''googleScriptUrl'', JStr '' https://other.example/exec ''),
        (''values'', JArr [JArr [JStr ''BTCUSD'']])] fresh)))) =
     Some (JObj [(''sheetName'', JStr ''Sheet1''), (''values'', JArr [JArr [JStr ''BTCUSD'']])])
   \<and> forward [(''values'', JArr [JArr [JStr ''BTCUSD'']])] =
       forward [(''googleScriptUrl'', JStr '' https://other.example/exec ''),
                (''values'', JArr [JArr [JStr ''BTCUSD'']])]"
proof -
  let ?e = "scripted [Resolved (plain 200 ''done'')]"
  let ?b = "[(''googleScriptUrl'', JStr '' https://other.example/exec ''),
             (''values'', JArr [JArr [JStr ''BTCUSD'']])]"
  let ?plain = "[(''values'', JArr [JArr [JStr ''BTCUSD'']])]"
  let ?sent = "drop (length (calls fresh)) (calls (snd (upload ?e ?b fresh)))"
  have target: "scriptUrl ?e ?b = Inr ''https://other.example/exec''"
    by (simp add: scriptUrl_def get_def trim_def is_space_def)
  have valid: "get ?b ''values'' = Some (JArr [JArr [JStr ''BTCUSD'']])"
    by (simp add: get_def)
  have no_name: "get ?b ''sheetName'' = None"
    by (simp add: get_def)
  have differ: "\<forall>name. name \<noteq> ''googleScriptUrl'' \<longrightarrow> get ?plain name = get ?b name"
    by (simp add: get_def)
  note facts = forwarded_body [OF target valid, of fresh]
  from facts no_name have shape: "forward ?b =
      JObj [(''sheetName'', JStr ''Sheet1''), (''values'', JArr [JArr [JStr ''BTCUSD'']])]"
    by simp
  from facts have some: "?sent \<noteq> []"
    and each: "\<forall>c \<in> set ?sent. payload c = Some (forward ?b)"
    by blast+
  from facts differ have same: "forward ?plain = forward ?b"
    by blast
  from some have "hd ?sent \<in> set ?sent"
    by simp
  with each have "payload (hd ?sent) = Some (forward ?b)"
    by blast
  with shape same show ?thesis
    by (simp add: fresh_def)
qed

section \<open>Read-through fetch\<close>










end
